theory Spec2Isabelle
  imports Complex_Main
begin

section \<open>Numbers of the program\<close>

text \<open>
  The script \<^verbatim>\<open>compute_iasp91_locsat_table.py\<close> computes with NumPy \<^verbatim>\<open>float64\<close> scalars and a
  Python \<^verbatim>\<open>float\<close> (the group speed, parsed by \<^verbatim>\<open>argparse\<close> with \<^verbatim>\<open>type=float\<close>, which also
  accepts \<^verbatim>\<open>inf\<close> and \<^verbatim>\<open>nan\<close>). A value is modelled as an exact real number or one of the three
  special values of the format. Rounding to 53 bits, overflow and the sign of zero are not
  represented: arithmetic on finite values is exact.
\<close>

datatype float64 = Finite real | PosInf | NegInf | NaN

text \<open>\<^verbatim>\<open>x**2\<close> on a \<^verbatim>\<open>float64\<close> scalar.\<close>

fun f_sq :: "float64 \<Rightarrow> float64" where
  "f_sq (Finite a) = Finite (a\<^sup>2)"
| "f_sq PosInf = PosInf"
| "f_sq NegInf = PosInf"
| "f_sq NaN = NaN"

text \<open>\<^verbatim>\<open>x + y\<close>: infinities of opposite sign give \<^verbatim>\<open>nan\<close>.\<close>

fun f_add :: "float64 \<Rightarrow> float64 \<Rightarrow> float64" where
  "f_add NaN y = NaN"
| "f_add x NaN = NaN"
| "f_add (Finite a) (Finite b) = Finite (a + b)"
| "f_add PosInf NegInf = NaN"
| "f_add NegInf PosInf = NaN"
| "f_add PosInf y = PosInf"
| "f_add x PosInf = PosInf"
| "f_add NegInf y = NegInf"
| "f_add x NegInf = NegInf"

text \<open>\<^verbatim>\<open>np.sqrt\<close>: \<^verbatim>\<open>nan\<close> on a negative argument, no exception.\<close>

fun np_sqrt :: "float64 \<Rightarrow> float64" where
  "np_sqrt (Finite a) = (if a < 0 then NaN else Finite (sqrt a))"
| "np_sqrt PosInf = PosInf"
| "np_sqrt NegInf = NaN"
| "np_sqrt NaN = NaN"

text \<open>
  \<^verbatim>\<open>x / y\<close> with a \<^verbatim>\<open>float64\<close> scalar on the left: NumPy's true division. A zero divisor raises
  nothing: it gives \<^verbatim>\<open>nan\<close> for \<^verbatim>\<open>0/0\<close> and an infinity with the sign of the dividend otherwise.
  What NumPy reports about such a division is \<open>div_condition\<close> below.
\<close>

fun f_div :: "float64 \<Rightarrow> float64 \<Rightarrow> float64" where
  "f_div NaN y = NaN"
| "f_div x NaN = NaN"
| "f_div (Finite a) (Finite b) =
     (if b = 0 then (if a = 0 then NaN else if 0 < a then PosInf else NegInf)
      else Finite (a / b))"
| "f_div (Finite a) PosInf = Finite 0"
| "f_div (Finite a) NegInf = Finite 0"
| "f_div PosInf (Finite b) = (if b < 0 then NegInf else PosInf)"
| "f_div NegInf (Finite b) = (if b < 0 then PosInf else NegInf)"
| "f_div PosInf PosInf = NaN"
| "f_div PosInf NegInf = NaN"
| "f_div NegInf PosInf = NaN"
| "f_div NegInf NegInf = NaN"

text \<open>The comparison \<^verbatim>\<open>x <= y\<close> of two floats: false as soon as one side is \<^verbatim>\<open>nan\<close>.\<close>

fun f_le :: "float64 \<Rightarrow> float64 \<Rightarrow> bool" where
  "f_le NaN y = False"
| "f_le x NaN = False"
| "f_le NegInf y = True"
| "f_le x PosInf = True"
| "f_le PosInf y = False"
| "f_le x NegInf = False"
| "f_le (Finite a) (Finite b) = (a \<le> b)"

section \<open>Floating-point conditions reported by NumPy\<close>

text \<open>
  A scalar operation that meets a floating-point condition still returns its value; under
  NumPy's default error state (\<^verbatim>\<open>divide\<close> and \<^verbatim>\<open>invalid\<close> set to \<^verbatim>\<open>warn\<close>) it also issues a
  \<^verbatim>\<open>RuntimeWarning\<close>, \<^verbatim>\<open>divide by zero encountered in ...\<close> or \<^verbatim>\<open>invalid value encountered in ...\<close>,
  naming the operation. Overflow, which exact arithmetic does not have, is not represented.
\<close>

datatype fp_condition = DivideByZero | InvalidValue

datatype np_operation = ScalarAdd | Sqrt | ScalarDivide

type_synonym runtime_warning = "fp_condition \<times> np_operation"

text \<open>Adding infinities of opposite sign is invalid.\<close>

fun add_condition :: "float64 \<Rightarrow> float64 \<Rightarrow> fp_condition option" where
  "add_condition PosInf NegInf = Some InvalidValue"
| "add_condition NegInf PosInf = Some InvalidValue"
| "add_condition x y = None"

text \<open>The square root of a negative number is invalid.\<close>

fun sqrt_condition :: "float64 \<Rightarrow> fp_condition option" where
  "sqrt_condition (Finite a) = (if a < 0 then Some InvalidValue else None)"
| "sqrt_condition NegInf = Some InvalidValue"
| "sqrt_condition x = None"

text \<open>
  A finite non-zero number divided by zero is a division by zero; \<^verbatim>\<open>0/0\<close> and \<^verbatim>\<open>inf/inf\<close> are
  invalid. A \<^verbatim>\<open>nan\<close> operand passes through silently.
\<close>

fun div_condition :: "float64 \<Rightarrow> float64 \<Rightarrow> fp_condition option" where
  "div_condition (Finite a) (Finite b) =
     (if b = 0 then (if a = 0 then Some InvalidValue else Some DivideByZero) else None)"
| "div_condition PosInf PosInf = Some InvalidValue"
| "div_condition PosInf NegInf = Some InvalidValue"
| "div_condition NegInf PosInf = Some InvalidValue"
| "div_condition NegInf NegInf = Some InvalidValue"
| "div_condition x y = None"

definition reported :: "np_operation \<Rightarrow> fp_condition option \<Rightarrow> runtime_warning list" where
  "reported operation c = (case c of None \<Rightarrow> [] | Some k \<Rightarrow> [(k, operation)])"

text \<open>
  Python's warning filter, at its default, shows a warning once for each source line and
  message. All the operations in question are on line 85, so a warning is shown when it is
  not among those shown before. The standard error stream is the list of warnings shown so far.
\<close>

definition warn :: "runtime_warning \<Rightarrow> runtime_warning list \<Rightarrow> runtime_warning list" where
  "warn w err = (if w \<in> set err then err else err @ [w])"

section \<open>Text formatting\<close>

definition digit_char :: "nat \<Rightarrow> char" where
  "digit_char n = ''0123456789'' ! (n mod 10)"

text \<open>\<^verbatim>\<open>str(n)\<close> of a non-negative integer, as in \<^verbatim>\<open>f"{len(z_samples)}"\<close>.\<close>

fun str_nat :: "nat \<Rightarrow> string" where
  "str_nat n = (if n < 10 then [digit_char n] else str_nat (n div 10) @ [digit_char (n mod 10)])"

declare str_nat.simps [simp del]

text \<open>
  The nearest integer to a non-negative real, a tie going to the even neighbour: the rounding
  of Python's float formatting.
\<close>

definition round_half_even :: "real \<Rightarrow> nat" where
  "round_half_even y =
     (let f = nat \<lfloor>y\<rfloor>; d = y - of_int \<lfloor>y\<rfloor>
      in if d < 1 / 2 then f else if 1 / 2 < d then f + 1 else if even f then f else f + 1)"

definition zfill :: "nat \<Rightarrow> string \<Rightarrow> string" where
  "zfill w s = replicate (w - length s) CHR ''0'' @ s"

text \<open>The digits of \<^verbatim>\<open>format(x, ".<prec>f")\<close>, before padding.\<close>

fun fixed_digits :: "nat \<Rightarrow> float64 \<Rightarrow> string" where
  "fixed_digits prec NaN = ''nan''"
| "fixed_digits prec PosInf = ''inf''"
| "fixed_digits prec NegInf = ''-inf''"
| "fixed_digits prec (Finite v) =
     (let n = round_half_even (\<bar>v\<bar> * 10 ^ prec)
      in (if v < 0 then ''-'' else '''')
         @ str_nat (n div 10 ^ prec)
         @ (if prec = 0 then '''' else ''.'' @ zfill prec (str_nat (n mod 10 ^ prec))))"

text \<open>
  \<^verbatim>\<open>f"{x:<width>.<prec>f}"\<close>: fixed-point notation, right-aligned in a field of at least
  \<^verbatim>\<open>width\<close> characters, padded with spaces.
\<close>

definition format_f :: "nat \<Rightarrow> nat \<Rightarrow> float64 \<Rightarrow> string" where
  "format_f width prec x =
     (let body = fixed_digits prec x in replicate (width - length body) CHR '' '' @ body)"

section \<open>The grid\<close>

text \<open>
  The module-level arrays (lines 27 to 29). The literals are taken as the decimal numbers they
  denote.
\<close>

definition z_samples :: "float64 list" where
  "z_samples = [Finite 0]"

definition d_samples :: "float64 list" where
  "d_samples = [Finite 0, Finite (1 / 10), Finite (1 / 2), Finite 1, Finite 5, Finite 10,
                Finite 15, Finite 20, Finite 25, Finite 30]"

text \<open>
  Modelled from the spec: \<^verbatim>\<open>degrees2kilometers\<close> is imported from \<^verbatim>\<open>obspy.geodetics\<close> and its
  code is not part of the source. The spec gives it as the arc length on a sphere of radius
  6371.0 km: \<^verbatim>\<open>km = degrees * (pi/180) * 6371.0\<close>.
\<close>

fun degrees2kilometers :: "float64 \<Rightarrow> float64" where
  "degrees2kilometers (Finite d) = Finite (d * (pi / 180) * 6371)"
| "degrees2kilometers PosInf = PosInf"
| "degrees2kilometers NegInf = NegInf"
| "degrees2kilometers NaN = NaN"

text \<open>Line 29 applies the conversion to the whole array, element by element.\<close>

definition r_samples :: "float64 list" where
  "r_samples = map degrees2kilometers d_samples"

section \<open>The table generator\<close>

text \<open>Line 85: \<^verbatim>\<open>np.sqrt(z**2 + r**2) / group_speed\<close>.\<close>

definition travel_time :: "float64 \<Rightarrow> float64 \<Rightarrow> float64 \<Rightarrow> float64" where
  "travel_time z r group_speed = f_div (np_sqrt (f_add (f_sq z) (f_sq r))) group_speed"

text \<open>The warnings the same expression issues, in the order of its evaluation.\<close>

definition travel_time_warnings :: "float64 \<Rightarrow> float64 \<Rightarrow> float64 \<Rightarrow> runtime_warning list" where
  "travel_time_warnings z r group_speed =
     (let q = f_add (f_sq z) (f_sq r)
      in reported ScalarAdd (add_condition (f_sq z) (f_sq r))
         @ reported Sqrt (sqrt_condition q)
         @ reported ScalarDivide (div_condition (np_sqrt q) group_speed))"

text \<open>
  The open file is the text written to it so far; \<^verbatim>\<open>f.write(s)\<close> appends. Text is a list of
  bytes, the phase being the bytes of its encoding.
\<close>

definition f_write :: "string \<Rightarrow> string \<Rightarrow> string" where
  "f_write f s = f @ s"

text \<open>
  The two sample loops (lines 69 to 72 and 76 to 79) have the same body:
  \<^verbatim>\<open>for i, x in enumerate(samples, 1)\<close> writes \<^verbatim>\<open>f"{x:8.2f}"\<close> and then a newline when
  \<^verbatim>\<open>i % 10 == 0 or i == len(samples)\<close>. Here \<open>n\<close> is \<^verbatim>\<open>len(samples)\<close> and \<open>i\<close> the running index.
\<close>

fun write_samples :: "nat \<Rightarrow> nat \<Rightarrow> float64 list \<Rightarrow> string \<Rightarrow> string" where
  "write_samples n i [] f = f"
| "write_samples n i (x # xs) f =
     (let f1 = f_write f (format_f 8 2 x);
          f2 = (if i mod 10 = 0 \<or> i = n then f_write f1 ''\<newline>'' else f1)
      in write_samples n (i + 1) xs f2)"

text \<open>The inner loop of lines 84 to 86, over the kilometre distances.\<close>

fun write_times :: "float64 \<Rightarrow> float64 \<Rightarrow> float64 list \<Rightarrow> string \<Rightarrow> string" where
  "write_times group_speed z [] f = f"
| "write_times group_speed z (r # rs) f =
     write_times group_speed z rs
       (f_write f (format_f 12 3 (travel_time z r group_speed) @ ''\<newline>''))"

text \<open>The outer loop of lines 82 to 86, over the depths.\<close>

fun write_blocks :: "float64 \<Rightarrow> float64 list \<Rightarrow> string \<Rightarrow> string" where
  "write_blocks group_speed [] f = f"
| "write_blocks group_speed (z # zs) f =
     write_blocks group_speed zs
       (write_times group_speed z r_samples
          (f_write f (''# Travel-time/amplitude for z = '' @ format_f 8 2 z @ ''\<newline>'')))"

text \<open>
  The same two loops, seen from the standard error stream \<open>err\<close>: each evaluation of line 85
  shows the warnings it issues that were not shown before.
\<close>

fun times_warnings ::
  "float64 \<Rightarrow> float64 \<Rightarrow> float64 list \<Rightarrow> runtime_warning list \<Rightarrow> runtime_warning list" where
  "times_warnings group_speed z [] err = err"
| "times_warnings group_speed z (r # rs) err =
     times_warnings group_speed z rs (fold warn (travel_time_warnings z r group_speed) err)"

fun blocks_warnings ::
  "float64 \<Rightarrow> float64 list \<Rightarrow> runtime_warning list \<Rightarrow> runtime_warning list" where
  "blocks_warnings group_speed [] err = err"
| "blocks_warnings group_speed (z # zs) err =
     blocks_warnings group_speed zs (times_warnings group_speed z r_samples err)"

text \<open>The body of the \<^verbatim>\<open>with\<close> block (lines 64 to 86), from the freshly opened file \<open>f\<close>.\<close>

definition write_table :: "string \<Rightarrow> float64 \<Rightarrow> string \<Rightarrow> string" where
  "write_table phase group_speed f =
     (let f1 = f_write f (''n # '' @ phase @ '' travel-time tables\<newline>'');
          f2 = f_write f1 (str_nat (length z_samples) @ '' # number of depth samples\<newline>'');
          f3 = write_samples (length z_samples) 1 z_samples f2;
          f4 = f_write f3 (str_nat (length d_samples) @ '' # number of distance samples\<newline>'');
          f5 = write_samples (length d_samples) 1 d_samples f4
      in write_blocks group_speed z_samples f5)"

text \<open>
  What a run can touch: the files of the working directory, by name, the standard output and
  the standard error stream. A printed line is a list of pieces; a float piece stands for
  \<^verbatim>\<open>str(x)\<close>, whose digits are not modelled. Opening a file for writing is taken to succeed.
  The program itself writes nothing to the standard error stream: what arrives there are the
  warnings of the NumPy operations of line 85.
\<close>

datatype piece = Text string | Num float64

record env =
  files :: "string \<rightharpoonup> string"
  stdout :: "piece list list"
  stderr :: "runtime_warning list"

definition print :: "piece list \<Rightarrow> env \<Rightarrow> env" where
  "print line e = e\<lparr>stdout := stdout e @ [line]\<rparr>"

text \<open>
  Lines 56 to 89. \<^verbatim>\<open>open(file_name, "w")\<close> creates the file or truncates it, so the text
  written starts from the empty file whatever was there before.
\<close>

definition generate_travel_time_table :: "string \<Rightarrow> float64 \<Rightarrow> bool \<Rightarrow> env \<Rightarrow> env" where
  "generate_travel_time_table phase group_speed verbose e =
     (let file_name = ''iasp91.'' @ phase;
          e1 = (if verbose
                then print [Text ''Group speed: '', Num group_speed]
                       (print [Text (''Output file: '' @ file_name)]
                          (print [Text (''Generating travel-time table for phase: '' @ phase)] e))
                else e);
          e2 = e1\<lparr>files := (files e1)(file_name \<mapsto> write_table phase group_speed []),
                   stderr := blocks_warnings group_speed z_samples (stderr e1)\<rparr>
      in if verbose
         then print [Text (''Travel-time table successfully written to '' @ file_name)] e2
         else e2)"

section \<open>Notions used to state the properties\<close>

text \<open>The lines of a text, each without its terminating newline.\<close>

fun split_lines :: "string \<Rightarrow> string \<Rightarrow> string list" where
  "split_lines cur [] = (if cur = [] then [] else [cur])"
| "split_lines cur (c # cs) =
     (if c = CHR ''\<newline>'' then cur # split_lines [] cs else split_lines (cur @ [c]) cs)"

definition lines_of :: "string \<Rightarrow> string list" where
  "lines_of t = split_lines [] t"

definition first_line :: "string \<Rightarrow> string" where
  "first_line t = takeWhile (\<lambda>c. c \<noteq> CHR ''\<newline>'') t"


text \<open>A float that is a real number and not below zero.\<close>

fun nonneg_real :: "float64 \<Rightarrow> bool" where
  "nonneg_real (Finite a) = (0 \<le> a)"
| "nonneg_real PosInf = False"
| "nonneg_real NegInf = False"
| "nonneg_real NaN = False"

text \<open>
  The file layout as the specification words it (section 4.4): the header line, the count of
  depth samples, the depth values in fields \<^verbatim>\<open>%8.2f\<close>, the count of distance samples, the
  distance values in degrees in fields \<^verbatim>\<open>%8.2f\<close>, and for each depth a comment line followed
  by one travel time per distance, each on a line of its own in a field \<^verbatim>\<open>%12.3f\<close>.
\<close>

definition spec_layout :: "string \<Rightarrow> float64 \<Rightarrow> string" where
  "spec_layout phase group_speed =
     ''n # '' @ phase @ '' travel-time tables'' @ ''\<newline>''
     @ str_nat (length z_samples) @ '' # number of depth samples'' @ ''\<newline>''
     @ concat (map (format_f 8 2) z_samples) @ ''\<newline>''
     @ str_nat (length d_samples) @ '' # number of distance samples'' @ ''\<newline>''
     @ concat (map (format_f 8 2) d_samples) @ ''\<newline>''
     @ concat (map (\<lambda>z. ''# Travel-time/amplitude for z = '' @ format_f 8 2 z @ ''\<newline>''
                      @ concat (map (\<lambda>r. format_f 12 3 (travel_time z r group_speed)
                                          @ ''\<newline>'') r_samples))
                 z_samples)"

section \<open>Auxiliary facts\<close>

subsection \<open>Evaluating the formatter\<close>

lemma replicate_numeral: "replicate (numeral k) x = x # replicate (pred_numeral k) x"
  by (simp add: numeral_eq_Suc)

lemmas format_eval = format_f_def round_half_even_def zfill_def str_nat.simps digit_char_def
  replicate_numeral

subsection \<open>The loops\<close>

text \<open>Each loop appends to the file what a map over its list describes.\<close>

lemma write_times_eq:
  "write_times gs z rs f =
     f @ concat (map (\<lambda>r. format_f 12 3 (travel_time z r gs) @ ''\<newline>'') rs)"
  by (induction rs arbitrary: f) (simp_all add: f_write_def)

lemma write_blocks_eq:
  "write_blocks gs zs f =
     f @ concat (map (\<lambda>z. ''# Travel-time/amplitude for z = '' @ format_f 8 2 z @ ''\<newline>''
                      @ concat (map (\<lambda>r. format_f 12 3 (travel_time z r gs) @ ''\<newline>'')
                                  r_samples)) zs)"
  by (induction zs arbitrary: f) (simp_all add: f_write_def write_times_eq)

text \<open>
  With one depth and ten distances the newline test of the sample loops fires once, after the
  last value.
\<close>

lemma write_depth_samples:
  "write_samples (length z_samples) 1 z_samples f =
     f @ concat (map (format_f 8 2) z_samples) @ ''\<newline>''"
  by (simp add: z_samples_def f_write_def)

lemma write_distance_samples:
  "write_samples (length d_samples) 1 d_samples f =
     f @ concat (map (format_f 8 2) d_samples) @ ''\<newline>''"
  by (simp add: d_samples_def f_write_def)

lemma write_table_layout: "write_table phase gs [] = spec_layout phase gs"
  unfolding write_table_def spec_layout_def Let_def write_depth_samples write_distance_samples
    write_blocks_eq f_write_def
  by simp

lemma files_generate:
  "files (generate_travel_time_table phase gs verbose e) =
     (files e)(''iasp91.'' @ phase \<mapsto> write_table phase gs [])"
  by (simp add: generate_travel_time_table_def print_def Let_def)

lemma stdout_generate:
  "stdout (generate_travel_time_table phase gs verbose e) =
     (if verbose
      then stdout e @
        [[Text (''Generating travel-time table for phase: '' @ phase)],
         [Text (''Output file: '' @ ''iasp91.'' @ phase)],
         [Text ''Group speed: '', Num gs],
         [Text (''Travel-time table successfully written to '' @ ''iasp91.'' @ phase)]]
      else stdout e)"
  by (simp add: generate_travel_time_table_def print_def Let_def)


subsection \<open>The fixed lines of the file\<close>

lemma depth_line: "concat (map (format_f 8 2) z_samples) = ''    0.00''"
  by (simp add: z_samples_def format_eval)

lemma distance_line:
  "concat (map (format_f 8 2) d_samples) =
     ''    0.00    0.10    0.50    1.00    5.00   10.00   15.00   20.00   25.00   30.00''"
  by (simp add: d_samples_def format_eval)

lemma depth_count: "str_nat (length z_samples) = ''1''"
  by (simp add: z_samples_def str_nat.simps digit_char_def)

lemma distance_count: "str_nat (length d_samples) = ''10''"
  by (simp add: d_samples_def str_nat.simps digit_char_def)

lemma format_nan: "format_f 12 3 NaN = ''         nan''"
  by (simp add: format_eval)

lemma format_inf: "format_f 12 3 PosInf = ''         inf''"
  by (simp add: format_eval)

subsection \<open>The grid\<close>

lemma z_samples_mem: "z \<in> set z_samples \<longleftrightarrow> z = Finite 0"
  by (auto simp: z_samples_def)

lemma r_samples_explicit:
  "r_samples = map (\<lambda>d. Finite (d * (pi / 180) * 6371)) [0, 1 / 10, 1 / 2, 1, 5, 10, 15, 20, 25, 30]"
  by (simp add: r_samples_def d_samples_def)

lemma kilometres_bounded:
  fixes d :: real
  assumes "0 \<le> d" and "d \<le> 30"
  shows "0 \<le> d * (pi / 180) * 6371 \<and> d * (pi / 180) * 6371 \<le> 10 ^ 4"
proof -
  have "d * pi \<le> 30 * 4"
    using assms pi_less_4 pi_ge_zero by (intro mult_mono) simp_all
  then have "d * pi * (6371 / 180) \<le> 30 * 4 * (6371 / 180)"
    by (intro mult_right_mono) simp_all
  also have "\<dots> \<le> 10 ^ 4"
    by simp
  finally have "d * pi * (6371 / 180) \<le> 10 ^ 4" .
  moreover have "d * (pi / 180) * 6371 = d * pi * (6371 / 180)"
    by simp
  moreover have "0 \<le> d * (pi / 180) * 6371"
    using assms(1) by simp
  ultimately show ?thesis
    by (simp only: simp_thms)
qed

lemma r_samples_bounded:
  assumes "r \<in> set r_samples"
  shows "\<exists>b. r = Finite b \<and> 0 \<le> b \<and> b \<le> 10 ^ 4"
proof -
  from assms have "r \<in> (\<lambda>d. Finite (d * (pi / 180) * 6371))
                        ` set [0, 1 / 10, 1 / 2, 1, 5, 10, 15, 20, 25, 30]"
    unfolding r_samples_explicit by (simp only: set_map)
  then obtain d :: real where d: "d \<in> set [0, 1 / 10, 1 / 2, 1, 5, 10, 15, 20, 25, 30]"
    and r: "r = Finite (d * (pi / 180) * 6371)"
    by blast
  from d have "0 \<le> d" and "d \<le> 30"
    by auto
  from kilometres_bounded [OF this] r show ?thesis
    by blast
qed

subsection \<open>Travel times at the surface\<close>

text \<open>
  The only depth is zero and no distance is negative, so the slant range is the distance
  itself.
\<close>

lemma travel_time_finite:
  "s \<noteq> 0 \<Longrightarrow> travel_time (Finite a) (Finite b) (Finite s) = Finite (sqrt (a\<^sup>2 + b\<^sup>2) / s)"
  by (simp add: travel_time_def not_less)

lemma travel_time_surface:
  "0 \<le> b \<Longrightarrow> s \<noteq> 0 \<Longrightarrow> travel_time (Finite 0) (Finite b) (Finite s) = Finite (b / s)"
  by (simp add: travel_time_def)

lemma surface_times:
  assumes "s \<noteq> 0"
  shows "map (\<lambda>r. travel_time (Finite 0) r (Finite s)) r_samples
    = map Finite (map (\<lambda>d. d * (pi / 180) * 6371 / s) [0, 1 / 10, 1 / 2, 1, 5, 10, 15, 20, 25, 30])"
  unfolding r_samples_explicit using assms by (simp add: travel_time_surface)

lemma surface_times_inf:
  "map (\<lambda>r. travel_time (Finite 0) r PosInf) r_samples = map Finite (replicate 10 0)"
  unfolding r_samples_explicit by (simp add: travel_time_def replicate_numeral)


subsection \<open>Warnings at speed zero\<close>






subsection \<open>Order\<close>

lemma sorted_wrt_f_le_Finite: "sorted_wrt f_le (map Finite xs) = sorted xs"
  by (simp add: sorted_wrt_map)

lemma sorted_scaled:
  fixes c :: real
  assumes "0 \<le> c" and "sorted xs"
  shows "sorted (map (\<lambda>d. d * c) xs)"
proof -
  have "sorted_wrt (\<lambda>x y. x * c \<le> y * c) xs"
    using assms(2) by (rule sorted_wrt_mono_rel [rotated]) (simp add: assms(1) mult_right_mono)
  then show ?thesis
    by (simp add: sorted_wrt_map)
qed

subsection \<open>Lines\<close>

text \<open>No formatted number holds a newline, so every value written stays on its line.\<close>

lemma digit_char_not_newline: "digit_char n \<noteq> CHR ''\<newline>''"
proof -
  have "digit_char n \<in> set ''0123456789''"
    unfolding digit_char_def by (rule nth_mem) simp
  then show ?thesis by auto
qed

lemma str_nat_no_newline: "CHR ''\<newline>'' \<notin> set (str_nat n)"
proof (induction n rule: str_nat.induct)
  case (1 n)
  then show ?case
    by (subst str_nat.simps) (simp add: digit_char_not_newline [symmetric])
qed

lemma fixed_digits_no_newline: "CHR ''\<newline>'' \<notin> set (fixed_digits p x)"
  by (cases x) (simp_all add: Let_def zfill_def str_nat_no_newline)

lemma format_f_no_newline: "CHR ''\<newline>'' \<notin> set (format_f w p x)"
  by (simp add: format_f_def Let_def fixed_digits_no_newline)

lemma samples_line_no_newline: "CHR ''\<newline>'' \<notin> set (concat (map (format_f 8 2) xs))"
  by (induction xs) (simp_all add: format_f_no_newline)

lemma split_lines_line:
  "CHR ''\<newline>'' \<notin> set a \<Longrightarrow>
     split_lines cur (a @ CHR ''\<newline>'' # rest) = (cur @ a) # split_lines [] rest"
  by (induction a arbitrary: cur) auto

lemma lines_of_line:
  "CHR ''\<newline>'' \<notin> set a \<Longrightarrow> lines_of (a @ CHR ''\<newline>'' # rest) = a # lines_of rest"
  by (simp add: lines_of_def split_lines_line)

lemma lines_of_time_lines:
  "lines_of (concat (map (\<lambda>r. format_f 12 3 (g r) @ ''\<newline>'') rs)) = map (\<lambda>r. format_f 12 3 (g r)) rs"
proof (induction rs)
  case Nil
  show ?case by (simp add: lines_of_def)
next
  case (Cons r rs)
  have "lines_of (format_f 12 3 (g r) @ CHR ''\<newline>'' #
          concat (map (\<lambda>r. format_f 12 3 (g r) @ ''\<newline>'') rs))
        = format_f 12 3 (g r) # lines_of (concat (map (\<lambda>r. format_f 12 3 (g r) @ ''\<newline>'') rs))"
    by (rule lines_of_line) (rule format_f_no_newline)
  with Cons show ?case by simp
qed

lemma takeWhile_no_newline:
  "CHR ''\<newline>'' \<notin> set p \<Longrightarrow>
     takeWhile (\<lambda>c. c \<noteq> CHR ''\<newline>'') (p @ CHR ''\<newline>'' # rest) = p"
  by (induction p) auto

lemma takeWhile_newline_inside:
  "CHR ''\<newline>'' \<in> set p \<Longrightarrow>
     takeWhile (\<lambda>c. c \<noteq> CHR ''\<newline>'') (p @ rest) = takeWhile (\<lambda>c. c \<noteq> CHR ''\<newline>'') p"
  by (induction p) auto

lemma takeWhile_shorter:
  "CHR ''\<newline>'' \<in> set p \<Longrightarrow> length (takeWhile (\<lambda>c. c \<noteq> CHR ''\<newline>'') p) < length p"
  by (induction p) auto

lemma write_table_header:
  "\<exists>rest. write_table phase gs [] = ''n # '' @ phase @ '' travel-time tables'' @ CHR ''\<newline>'' # rest"
  by (simp add: write_table_layout spec_layout_def)

section \<open>The claims\<close>

text \<open>
  C1. For the depth sample \<open>z\<close>, every kilometre distance \<open>r\<close> and every finite non-zero group
  speed \<open>s\<close>, the value written on a travel-time line is \<open>sqrt (z\<^sup>2 + r\<^sup>2) / s\<close>, in the field
  \<^verbatim>\<open>%12.3f\<close>. The only depth being 0, the travel time at the 0.1 degree sample is the converted
  distance divided by the speed, \<open>degrees2kilometers 0.1 / s\<close>. The claim asks this for \<open>s > 0\<close>;
  it holds for every \<open>s \<noteq> 0\<close>. The equality is one of real numbers: rounding is not modelled.
\<close>

theorem travel_time_written:
  assumes "s \<noteq> 0"
  shows "write_blocks (Finite s) z_samples f =
           f @ concat (map (\<lambda>z. ''# Travel-time/amplitude for z = '' @ format_f 8 2 (Finite z)
                              @ ''\<newline>''
                              @ concat (map (\<lambda>r. format_f 12 3 (Finite (sqrt (z\<^sup>2 + r\<^sup>2) / s))
                                                @ ''\<newline>'')
                                  (map (\<lambda>d. d * (pi / 180) * 6371)
                                     [0, 1 / 10, 1 / 2, 1, 5, 10, 15, 20, 25, 30])))
                        [0])
         \<and> d_samples ! 1 = Finite (1 / 10)
         \<and> r_samples ! 1 = degrees2kilometers (d_samples ! 1)
         \<and> travel_time (z_samples ! 0) (r_samples ! 1) (Finite s)
             = f_div (degrees2kilometers (Finite (1 / 10))) (Finite s)
         \<and> travel_time (z_samples ! 0) (r_samples ! 1) (Finite s)
             = Finite (1 / 10 * (pi / 180) * 6371 / s)"
proof -
  have d1: "d_samples ! 1 = Finite (1 / 10)"
    by (simp add: d_samples_def)
  have r1: "r_samples ! 1 = degrees2kilometers (d_samples ! 1)"
    by (simp add: r_samples_def d_samples_def)
  have z0: "z_samples ! 0 = Finite 0"
    by (simp add: z_samples_def)
  have t: "travel_time (z_samples ! 0) (r_samples ! 1) (Finite s)
             = Finite (1 / 10 * (pi / 180) * 6371 / s)"
    unfolding z0 r1 d1 degrees2kilometers.simps using assms
    by (subst travel_time_surface) simp_all
  have q: "f_div (degrees2kilometers (Finite (1 / 10))) (Finite s)
             = Finite (1 / 10 * (pi / 180) * 6371 / s)"
    using assms by simp
  have w: "write_blocks (Finite s) z_samples f =
           f @ concat (map (\<lambda>z. ''# Travel-time/amplitude for z = '' @ format_f 8 2 (Finite z)
                              @ ''\<newline>''
                              @ concat (map (\<lambda>r. format_f 12 3 (Finite (sqrt (z\<^sup>2 + r\<^sup>2) / s))
                                                @ ''\<newline>'')
                                  (map (\<lambda>d. d * (pi / 180) * 6371)
                                     [0, 1 / 10, 1 / 2, 1, 5, 10, 15, 20, 25, 30])))
                        [0])"
    unfolding write_blocks_eq r_samples_explicit z_samples_def
    using assms by (simp add: travel_time_finite)
  from w d1 r1 t q show ?thesis by simp
qed

theorem travel_time_written_witness:
  "(34 / 100 :: real) \<noteq> 0
   \<and> travel_time (z_samples ! 0) (r_samples ! 1) (Finite (34 / 100))
       = Finite (1 / 10 * (pi / 180) * 6371 / (34 / 100))"
proof -
  have h: "(34 / 100 :: real) \<noteq> 0"
    by simp
  from travel_time_written [OF h, of "[]"]
  have "travel_time (z_samples ! 0) (r_samples ! 1) (Finite (34 / 100))
       = Finite (1 / 10 * (pi / 180) * 6371 / (34 / 100))"
    by (elim conjE)
  with h show ?thesis
    by (intro conjI)
qed

text \<open>
  C2. For every phase string and every group speed, the file \<^verbatim>\<open>iasp91.<phase>\<close> holds exactly
  the layout of the specification: the line \<^verbatim>\<open>n # <phase> travel-time tables\<close>, the count line
  of the depth samples, the depth values in fields \<^verbatim>\<open>%8.2f\<close>, the count line of the distance
  samples, the distance values in degrees (0.10, not 11.12 km) in fields \<^verbatim>\<open>%8.2f\<close>, and for
  the one depth a comment line followed by one travel time per distance sample, each alone on
  its line in a field \<^verbatim>\<open>%12.3f\<close>, with no second column.
\<close>

theorem table_file_layout:
  "files (generate_travel_time_table phase gs verbose e) (''iasp91.'' @ phase)
     = Some (spec_layout phase gs)
   \<and> spec_layout phase gs =
       ''n # '' @ phase @ '' travel-time tables\<newline>''
       @ ''1 # number of depth samples\<newline>''
       @ ''    0.00\<newline>''
       @ ''10 # number of distance samples\<newline>''
       @ ''    0.00    0.10    0.50    1.00    5.00   10.00   15.00   20.00   25.00   30.00\<newline>''
       @ ''# Travel-time/amplitude for z =     0.00\<newline>''
       @ concat (map (\<lambda>r. format_f 12 3 (travel_time (Finite 0) r gs) @ ''\<newline>'') r_samples)"
proof
  show "files (generate_travel_time_table phase gs verbose e) (''iasp91.'' @ phase)
     = Some (spec_layout phase gs)"
    by (simp add: files_generate write_table_layout)
next
  have z: "z_samples = [Finite 0]" by (simp add: z_samples_def)
  show "spec_layout phase gs =
       ''n # '' @ phase @ '' travel-time tables\<newline>''
       @ ''1 # number of depth samples\<newline>''
       @ ''    0.00\<newline>''
       @ ''10 # number of distance samples\<newline>''
       @ ''    0.00    0.10    0.50    1.00    5.00   10.00   15.00   20.00   25.00   30.00\<newline>''
       @ ''# Travel-time/amplitude for z =     0.00\<newline>''
       @ concat (map (\<lambda>r. format_f 12 3 (travel_time (Finite 0) r gs) @ ''\<newline>'') r_samples)"
    unfolding spec_layout_def depth_count distance_count depth_line distance_line
    using depth_line by (simp add: z)
qed

text \<open>
  C3. The ten distance samples in degrees are 0.0, 0.1, 0.5, 1.0, 5.0, 10.0, 15.0, 20.0, 25.0
  and 30.0; the kilometre sequence is obtained from them element by element through
  \<open>km = degrees * (pi/180) * 6371\<close>, so both have the same length and the kilometre value at an
  index is the conversion of the degree value at that index.
\<close>

theorem kilometre_samples:
  "d_samples = map Finite [0, 1 / 10, 1 / 2, 1, 5, 10, 15, 20, 25, 30]
   \<and> r_samples = map (\<lambda>d. Finite (d * (pi / 180) * 6371)) [0, 1 / 10, 1 / 2, 1, 5, 10, 15, 20, 25, 30]
   \<and> length r_samples = length d_samples
   \<and> list_all2 (\<lambda>d r. r = degrees2kilometers d) d_samples r_samples"
  by (simp add: d_samples_def r_samples_def)

text \<open>
  C4. For every phase without a newline and every group speed, the counts the file declares
  agree with what it holds. Its second line declares 1 depth sample and its third line holds
  one field of 8 characters; its fourth line declares 10 distance samples, its fifth line holds
  ten fields of 8 characters, and the comment line of the one depth block is followed by
  exactly 10 travel-time lines, which end the file. The degree and kilometre sequences have the
  same length, and the kilometre value at each index is the conversion of the degree value
  there.
\<close>

theorem declared_counts_match:
  assumes "CHR ''\<newline>'' \<notin> set phase"
  shows "lines_of (write_table phase gs []) =
           [''n # '' @ phase @ '' travel-time tables'',
            str_nat (length z_samples) @ '' # number of depth samples'',
            concat (map (format_f 8 2) z_samples),
            str_nat (length d_samples) @ '' # number of distance samples'',
            concat (map (format_f 8 2) d_samples),
            ''# Travel-time/amplitude for z = '' @ format_f 8 2 (z_samples ! 0)]
           @ map (\<lambda>r. format_f 12 3 (travel_time (z_samples ! 0) r gs)) r_samples
         \<and> str_nat (length z_samples) = ''1'' \<and> length z_samples = 1
         \<and> length (concat (map (format_f 8 2) z_samples)) = 8 * 1
         \<and> str_nat (length d_samples) = ''10'' \<and> length d_samples = 10
         \<and> length (concat (map (format_f 8 2) d_samples)) = 8 * 10
         \<and> length (map (\<lambda>r. format_f 12 3 (travel_time (z_samples ! 0) r gs)) r_samples) = 10
         \<and> length r_samples = length d_samples
         \<and> list_all2 (\<lambda>d r. r = degrees2kilometers d) d_samples r_samples"
proof -
  let ?nl = "CHR ''\<newline>''"
  let ?times = "concat (map (\<lambda>r. format_f 12 3 (travel_time (z_samples ! 0) r gs) @ ''\<newline>'') r_samples)"
  let ?l1 = "''n # '' @ phase @ '' travel-time tables''"
  let ?l2 = "str_nat (length z_samples) @ '' # number of depth samples''"
  let ?l3 = "concat (map (format_f 8 2) z_samples)"
  let ?l4 = "str_nat (length d_samples) @ '' # number of distance samples''"
  let ?l5 = "concat (map (format_f 8 2) d_samples)"
  let ?l6 = "''# Travel-time/amplitude for z = '' @ format_f 8 2 (z_samples ! 0)"
  have layout: "write_table phase gs [] =
      ?l1 @ ?nl # ?l2 @ ?nl # ?l3 @ ?nl # ?l4 @ ?nl # ?l5 @ ?nl # ?l6 @ ?nl # ?times"
    by (simp add: write_table_layout spec_layout_def z_samples_def)
  have n1: "?nl \<notin> set ?l1" using assms by simp
  have n2: "?nl \<notin> set ?l2" by (simp add: str_nat_no_newline)
  have n3: "?nl \<notin> set ?l3" by (rule samples_line_no_newline)
  have n4: "?nl \<notin> set ?l4" by (simp add: str_nat_no_newline)
  have n5: "?nl \<notin> set ?l5" by (rule samples_line_no_newline)
  have n6: "?nl \<notin> set ?l6" by (simp add: format_f_no_newline)
  have "lines_of (?l1 @ ?nl # ?l2 @ ?nl # ?l3 @ ?nl # ?l4 @ ?nl # ?l5 @ ?nl # ?l6 @ ?nl # ?times) =
      ?l1 # ?l2 # ?l3 # ?l4 # ?l5 # ?l6
        # map (\<lambda>r. format_f 12 3 (travel_time (z_samples ! 0) r gs)) r_samples"
    by (simp only: lines_of_line [OF n1] lines_of_line [OF n2] lines_of_line [OF n3]
        lines_of_line [OF n4] lines_of_line [OF n5] lines_of_line [OF n6] lines_of_time_lines)
  then have lines: "lines_of (write_table phase gs []) =
      [?l1, ?l2, ?l3, ?l4, ?l5, ?l6] @ map (\<lambda>r. format_f 12 3 (travel_time (z_samples ! 0) r gs)) r_samples"
    by (simp only: layout append_Cons append_Nil)
  have w3: "length ?l3 = 8 * 1"
    by (simp add: depth_line)
  have w5: "length ?l5 = 8 * 10"
    by (simp add: distance_line)
  have c: "length z_samples = 1" "length d_samples = 10" "length r_samples = length d_samples"
    by (simp_all add: z_samples_def d_samples_def r_samples_def)
  have al: "list_all2 (\<lambda>d r. r = degrees2kilometers d) d_samples r_samples"
    by (simp add: r_samples_def list_all2_map2 list_all2_same)
  have tl: "length (map (\<lambda>r. format_f 12 3 (travel_time (z_samples ! 0) r gs)) r_samples) = 10"
    by (simp add: c)
  from lines depth_count distance_count w3 w5 c al tl show ?thesis
    by (intro conjI)
qed

theorem declared_counts_match_witness:
  "CHR ''\<newline>'' \<notin> set ''Is''
   \<and> lines_of (write_table ''Is'' (Finite (34 / 100)) []) ! 1 = ''1 # number of depth samples''
   \<and> lines_of (write_table ''Is'' (Finite (34 / 100)) []) ! 2 = ''    0.00''
   \<and> lines_of (write_table ''Is'' (Finite (34 / 100)) []) ! 3 = ''10 # number of distance samples''
   \<and> length (lines_of (write_table ''Is'' (Finite (34 / 100)) [])) = 16"
proof -
  have h: "CHR ''\<newline>'' \<notin> set ''Is''"
    by simp
  note m = declared_counts_match [OF h, of "Finite (34 / 100)"]
  from m have l: "lines_of (write_table ''Is'' (Finite (34 / 100)) []) =
           [''n # '' @ ''Is'' @ '' travel-time tables'',
            str_nat (length z_samples) @ '' # number of depth samples'',
            concat (map (format_f 8 2) z_samples),
            str_nat (length d_samples) @ '' # number of distance samples'',
            concat (map (format_f 8 2) d_samples),
            ''# Travel-time/amplitude for z = '' @ format_f 8 2 (z_samples ! 0)]
           @ map (\<lambda>r. format_f 12 3 (travel_time (z_samples ! 0) r (Finite (34 / 100)))) r_samples"
    by (rule conjunct1)
  from m have n: "length (map (\<lambda>r. format_f 12 3 (travel_time (z_samples ! 0) r (Finite (34 / 100)))) r_samples) = 10"
    by (elim conjE)
  have a: "lines_of (write_table ''Is'' (Finite (34 / 100)) []) ! 1 = ''1 # number of depth samples''"
    unfolding l depth_count by simp
  have b: "lines_of (write_table ''Is'' (Finite (34 / 100)) []) ! 2 = ''    0.00''"
    unfolding l depth_line by simp
  have c: "lines_of (write_table ''Is'' (Finite (34 / 100)) []) ! 3 = ''10 # number of distance samples''"
    unfolding l distance_count by simp
  have d: "length (lines_of (write_table ''Is'' (Finite (34 / 100)) [])) = 16"
    unfolding l length_append n by simp
  from h a b c d show ?thesis
    by (intro conjI)
qed

text \<open>
  C5. Running the generator a second time with the same phase and group speed leaves every
  file as the first run left it: the table file has the same bytes. A run replaces whatever the
  file held before (it neither appends nor merges), and what it writes depends on the phase and
  the speed alone.
\<close>

theorem rerun_overwrites_identically:
  "files (generate_travel_time_table phase gs v2 (generate_travel_time_table phase gs v1 e))
     = files (generate_travel_time_table phase gs v1 e)
   \<and> files (generate_travel_time_table phase gs v2 (generate_travel_time_table phase gs v1 e))
         (''iasp91.'' @ phase)
     = files (generate_travel_time_table phase gs v1 e) (''iasp91.'' @ phase)
   \<and> files (generate_travel_time_table phase gs v1 (e\<lparr>files := (files e)(''iasp91.'' @ phase \<mapsto> old)\<rparr>))
     = files (generate_travel_time_table phase gs v1 e)
   \<and> files (generate_travel_time_table phase gs v1 e) (''iasp91.'' @ phase)
     = Some (write_table phase gs [])"
  by (simp add: files_generate)



text \<open>
  C7, as the specification words it, asks every cell to be a non-negative real number for
  every group speed the program accepts. The program accepts any float; with the speed \<open>-1\<close>
  the cell of depth 0 and distance 0.1 degree is negative.
\<close>

theorem negative_speed_negative_time:
  "\<not> nonneg_real (travel_time (z_samples ! 0) (r_samples ! 1) (Finite (- 1)))"
proof -
  have "travel_time (z_samples ! 0) (r_samples ! 1) (Finite (- 1))
          = Finite (1 / 10 * (pi / 180) * 6371 / (- 1))"
    by (simp add: z_samples_def r_samples_explicit travel_time_surface)
  then show ?thesis
    using pi_gt_zero by (simp add: not_le)
qed

text \<open>
  C7, amended. For every depth sample and kilometre distance: when the group speed is at least
  \<^verbatim>\<open>1e-300\<close>, or infinite, the cell is a non-negative real number, and it stays below
  \<^verbatim>\<open>1e304\<close>, inside the range of \<^verbatim>\<open>float64\<close>; for every group speed greater than zero the cell
  is not below zero (for the smallest positive speeds the quotient leaves the range of
  \<^verbatim>\<open>float64\<close> and the program holds \<^verbatim>\<open>inf\<close>, which is not below zero either).
\<close>

theorem positive_speed_nonneg_time:
  assumes "z \<in> set z_samples" and "r \<in> set r_samples"
  shows "(1 / 10 ^ 300 \<le> s \<longrightarrow>
            nonneg_real (travel_time z r (Finite s))
            \<and> f_le (travel_time z r (Finite s)) (Finite (10 ^ 304)))
         \<and> (0 < s \<longrightarrow> f_le (Finite 0) (travel_time z r (Finite s)))
         \<and> nonneg_real (travel_time z r PosInf)"
proof -
  from assms(1) have z: "z = Finite 0"
    by (simp add: z_samples_mem)
  from assms(2) obtain b where r: "r = Finite b" and b: "0 \<le> b" "b \<le> 10 ^ 4"
    using r_samples_bounded by blast
  have t: "travel_time z r (Finite s) = Finite (b / s)" if "0 < s"
    using that b(1) by (simp add: z r travel_time_surface)
  have ge: "f_le (Finite 0) (travel_time z r (Finite s))" if "0 < s"
    using that b(1) by (simp add: t)
  have bounded: "nonneg_real (travel_time z r (Finite s))
            \<and> f_le (travel_time z r (Finite s)) (Finite (10 ^ 304))" if s: "1 / 10 ^ 300 \<le> s"
  proof -
    have pos: "0 < s"
      using s by (rule less_le_trans [rotated]) simp
    have "b \<le> 10 ^ 4 * (10 ^ 300 * s)"
    proof -
      have "1 \<le> 10 ^ 300 * s"
        using s by (simp add: field_simps)
      then have "10 ^ 4 * 1 \<le> 10 ^ 4 * (10 ^ 300 * s)"
        by (intro mult_left_mono) simp_all
      with b(2) show ?thesis by simp
    qed
    then have "b \<le> 10 ^ 304 * s"
      by (simp add: power_add [symmetric] mult.assoc [symmetric])
    then have "b / s \<le> 10 ^ 304"
      using pos by (simp add: pos_divide_le_eq)
    with pos b(1) show ?thesis
      by (simp add: t)
  qed
  have inf: "nonneg_real (travel_time z r PosInf)"
    using b(1) by (simp add: z r travel_time_def)
  from bounded ge inf show ?thesis by blast
qed

theorem positive_speed_nonneg_time_witness:
  "Finite 0 \<in> set z_samples
   \<and> degrees2kilometers (Finite (1 / 10)) \<in> set r_samples
   \<and> (1 :: real) / 10 ^ 300 \<le> 34 / 100
   \<and> (0 :: real) < 34 / 100
   \<and> nonneg_real (travel_time (Finite 0) (degrees2kilometers (Finite (1 / 10))) (Finite (34 / 100)))
   \<and> f_le (travel_time (Finite 0) (degrees2kilometers (Finite (1 / 10))) (Finite (34 / 100)))
        (Finite (10 ^ 304))
   \<and> f_le (Finite 0) (travel_time (Finite 0) (degrees2kilometers (Finite (1 / 10))) (Finite (34 / 100)))
   \<and> nonneg_real (travel_time (Finite 0) (degrees2kilometers (Finite (1 / 10))) PosInf)"
proof -
  have z: "Finite 0 \<in> set z_samples"
    by (simp add: z_samples_def)
  have r: "degrees2kilometers (Finite (1 / 10)) \<in> set r_samples"
    by (simp add: r_samples_def d_samples_def)
  have s: "(0 :: real) < 34 / 100"
    by simp
  have "(1 :: real) / 10 ^ 300 \<le> 1"
    by (simp add: divide_le_eq_1)
  moreover have "(1 :: real) / 100 \<le> 34 / 100"
    by simp
  moreover have "(1 :: real) / 10 ^ 300 \<le> 1 / 100"
    by (rule divide_left_mono) (simp_all add: power_increasing [of 2 300 "10 :: real", simplified])
  ultimately have lo: "(1 :: real) / 10 ^ 300 \<le> 34 / 100"
    by linarith
  from positive_speed_nonneg_time [OF z r, of "34 / 100"] s lo
  have "nonneg_real (travel_time (Finite 0) (degrees2kilometers (Finite (1 / 10))) (Finite (34 / 100)))"
    and "f_le (travel_time (Finite 0) (degrees2kilometers (Finite (1 / 10))) (Finite (34 / 100)))
        (Finite (10 ^ 304))"
    and "f_le (Finite 0) (travel_time (Finite 0) (degrees2kilometers (Finite (1 / 10))) (Finite (34 / 100)))"
    and "nonneg_real (travel_time (Finite 0) (degrees2kilometers (Finite (1 / 10))) PosInf)"
    by blast+
  with z r s lo show ?thesis
    by (intro conjI)
qed

text \<open>
  C8, as the specification words it, asks the travel time to be non-decreasing along the
  distance samples for every fixed group speed. With the speed \<open>-1\<close> the travel time falls from
  the first distance sample to the second.
\<close>

theorem negative_speed_decreasing:
  "\<not> f_le (travel_time (z_samples ! 0) (r_samples ! 0) (Finite (- 1)))
          (travel_time (z_samples ! 0) (r_samples ! 1) (Finite (- 1)))"
proof -
  have "travel_time (z_samples ! 0) (r_samples ! 0) (Finite (- 1)) = Finite 0"
    by (simp add: z_samples_def r_samples_explicit travel_time_surface)
  moreover have "travel_time (z_samples ! 0) (r_samples ! 1) (Finite (- 1))
          = Finite (1 / 10 * (pi / 180) * 6371 / (- 1))"
    by (simp add: z_samples_def r_samples_explicit travel_time_surface)
  ultimately show ?thesis
    using pi_gt_zero by (simp add: not_le)
qed

text \<open>
  C8, amended. The kilometre distances are in ascending order, and for the depth sample and
  every group speed greater than zero, finite or infinite, the travel times along the distance
  samples are non-decreasing.
\<close>

theorem positive_speed_monotone:
  assumes "z \<in> set z_samples"
  shows "sorted_wrt f_le r_samples
         \<and> (0 < s \<longrightarrow> sorted_wrt f_le (map (\<lambda>r. travel_time z r (Finite s)) r_samples))
         \<and> sorted_wrt f_le (map (\<lambda>r. travel_time z r PosInf) r_samples)"
proof -
  from assms have z: "z = Finite 0"
    by (simp add: z_samples_mem)
  have deg: "sorted [0, 1 / 10, 1 / 2, 1, 5, 10, 15, 20, 25, 30 :: real]"
    by simp
  have "sorted (map (\<lambda>d. d * (pi / 180 * 6371)) [0, 1 / 10, 1 / 2, 1, 5, 10, 15, 20, 25, 30])"
    using deg by (intro sorted_scaled) simp_all
  then have km: "sorted_wrt f_le r_samples"
    unfolding r_samples_explicit
    by (simp only: sorted_wrt_f_le_Finite [symmetric] map_map comp_def mult.assoc)
  have pos: "sorted_wrt f_le (map (\<lambda>r. travel_time z r (Finite s)) r_samples)" if "0 < s"
  proof -
    from that have "0 \<le> pi / 180 * 6371 / s"
      by simp
    then have "sorted (map (\<lambda>d. d * (pi / 180 * 6371 / s)) [0, 1 / 10, 1 / 2, 1, 5, 10, 15, 20, 25, 30])"
      using deg by (intro sorted_scaled)
    moreover have "(\<lambda>d. d * (pi / 180 * 6371 / s)) = (\<lambda>d :: real. d * (pi / 180) * 6371 / s)"
      by (simp add: fun_eq_iff)
    ultimately have srt:
      "sorted (map (\<lambda>d. d * (pi / 180) * 6371 / s) [0, 1 / 10, 1 / 2, 1, 5, 10, 15, 20, 25, 30])"
      by (simp only:)
    from that have "s \<noteq> 0"
      by simp
    then have st: "map (\<lambda>r. travel_time (Finite 0) r (Finite s)) r_samples
      = map Finite (map (\<lambda>d. d * (pi / 180) * 6371 / s) [0, 1 / 10, 1 / 2, 1, 5, 10, 15, 20, 25, 30])"
      by (rule surface_times)
    show ?thesis
      unfolding z st sorted_wrt_f_le_Finite by (fact srt)
  qed
  have inf: "sorted_wrt f_le (map (\<lambda>r. travel_time z r PosInf) r_samples)"
    unfolding z surface_times_inf sorted_wrt_f_le_Finite by (simp add: replicate_numeral)
  from km pos inf show ?thesis by blast
qed

theorem positive_speed_monotone_witness:
  "Finite 0 \<in> set z_samples
   \<and> (0 :: real) < 34 / 100
   \<and> sorted_wrt f_le r_samples
   \<and> sorted_wrt f_le (map (\<lambda>r. travel_time (Finite 0) r (Finite (34 / 100))) r_samples)"
proof -
  have z: "Finite 0 \<in> set z_samples"
    by (simp add: z_samples_def)
  have s: "(0 :: real) < 34 / 100"
    by simp
  from positive_speed_monotone [OF z, of "34 / 100"] s
  have "sorted_wrt f_le r_samples"
    and "sorted_wrt f_le (map (\<lambda>r. travel_time (Finite 0) r (Finite (34 / 100))) r_samples)"
    by blast+
  with z s show ?thesis
    by (intro conjI)
qed

text \<open>
  C9. Two runs that differ only in the verbosity flag leave the same files behind. The flag
  decides only what is printed: nothing without it, four lines with it.
\<close>

theorem verbosity_leaves_file_alone:
  "files (generate_travel_time_table phase gs True e)
     = files (generate_travel_time_table phase gs False e)
   \<and> stdout (generate_travel_time_table phase gs False e) = stdout e
   \<and> stdout (generate_travel_time_table phase gs True e) =
       stdout e @
        [[Text (''Generating travel-time table for phase: '' @ phase)],
         [Text (''Output file: iasp91.'' @ phase)],
         [Text ''Group speed: '', Num gs],
         [Text (''Travel-time table successfully written to iasp91.'' @ phase)]]"
  by (simp add: files_generate stdout_generate)

text \<open>
  C10. The phase is put unchanged into the file name \<^verbatim>\<open>iasp91.<phase>\<close> and into the start of the
  file. When the phase holds no newline the first line of the file is
  \<^verbatim>\<open>n # <phase> travel-time tables\<close>; when it holds one, the first line stops inside the phase
  and is not of that form.
\<close>

theorem phase_verbatim:
  "files (generate_travel_time_table phase gs verbose e)
     = (files e)(''iasp91.'' @ phase \<mapsto> write_table phase gs [])
   \<and> take (24 + length phase) (write_table phase gs [])
     = ''n # '' @ phase @ '' travel-time tables\<newline>''
   \<and> (CHR ''\<newline>'' \<notin> set phase \<longrightarrow>
        first_line (write_table phase gs []) = ''n # '' @ phase @ '' travel-time tables'')
   \<and> (CHR ''\<newline>'' \<in> set phase \<longrightarrow>
        first_line (write_table phase gs []) \<noteq> ''n # '' @ phase @ '' travel-time tables''
        \<and> first_line (write_table phase gs [])
            = ''n # '' @ takeWhile (\<lambda>c. c \<noteq> CHR ''\<newline>'') phase)"
proof -
  obtain rest where t:
    "write_table phase gs [] = ''n # '' @ phase @ '' travel-time tables'' @ CHR ''\<newline>'' # rest"
    using write_table_header by blast
  have name: "files (generate_travel_time_table phase gs verbose e)
     = (files e)(''iasp91.'' @ phase \<mapsto> write_table phase gs [])"
    by (rule files_generate)
  define h where "h = ''n # '' @ phase @ '' travel-time tables\<newline>''"
  have "write_table phase gs [] = h @ rest" and "length h = 24 + length phase"
    by (simp_all add: t h_def)
  moreover have "take (length h) (h @ rest) = h"
    by simp
  ultimately have "take (24 + length phase) (write_table phase gs []) = h"
    by (simp only:)
  then have tk: "take (24 + length phase) (write_table phase gs [])
     = ''n # '' @ phase @ '' travel-time tables\<newline>''"
    by (simp only: h_def)
  have clean: "first_line (write_table phase gs []) = ''n # '' @ phase @ '' travel-time tables''"
    if "CHR ''\<newline>'' \<notin> set phase"
  proof -
    from that have "CHR ''\<newline>'' \<notin> set (''n # '' @ phase @ '' travel-time tables'')"
      by simp
    then have "takeWhile (\<lambda>c. c \<noteq> CHR ''\<newline>'')
                 ((''n # '' @ phase @ '' travel-time tables'') @ CHR ''\<newline>'' # rest)
               = ''n # '' @ phase @ '' travel-time tables''"
      by (rule takeWhile_no_newline)
    then show ?thesis by (simp add: first_line_def t)
  qed
  have broken: "first_line (write_table phase gs [])
            = ''n # '' @ takeWhile (\<lambda>c. c \<noteq> CHR ''\<newline>'') phase"
    if "CHR ''\<newline>'' \<in> set phase"
    using that by (simp add: first_line_def t takeWhile_newline_inside)
  have differs: "first_line (write_table phase gs []) \<noteq> ''n # '' @ phase @ '' travel-time tables''"
    if "CHR ''\<newline>'' \<in> set phase"
  proof
    assume "first_line (write_table phase gs []) = ''n # '' @ phase @ '' travel-time tables''"
    then have "length (''n # '' @ takeWhile (\<lambda>c. c \<noteq> CHR ''\<newline>'') phase)
                = length (''n # '' @ phase @ '' travel-time tables'')"
      using broken [OF that] by simp
    with takeWhile_shorter [OF that] show False by simp
  qed
  from name tk clean broken differs show ?thesis by blast
qed

theorem phase_verbatim_witness:
  "CHR ''\<newline>'' \<notin> set ''Is''
   \<and> first_line (write_table ''Is'' (Finite (34 / 100)) []) = ''n # Is travel-time tables''
   \<and> CHR ''\<newline>'' \<in> set ''I\<newline>s''
   \<and> first_line (write_table ''I\<newline>s'' (Finite (34 / 100)) []) = ''n # I''
   \<and> first_line (write_table ''I\<newline>s'' (Finite (34 / 100)) []) \<noteq> ''n # I\<newline>s travel-time tables''"
  using phase_verbatim [of "''Is''" "Finite (34 / 100)" False "\<lparr>files = Map.empty, stdout = [], stderr = []\<rparr>"]
    phase_verbatim [of "''I\<newline>s''" "Finite (34 / 100)" False "\<lparr>files = Map.empty, stdout = [], stderr = []\<rparr>"]
  by simp

end
